theory Spec2Isabelle
  imports Complex_Main
begin

section \<open>Errors, log lines and the outside world\<close>

text \<open>
  The Python exceptions that can leave a function of \<^verbatim>\<open>audio_pipeline.py\<close>.
\<close>

datatype error =
    FileNotFoundError
  | YAMLError
  | AttributeError
  | ZeroDivisionError
  | ValueError
  | OSError

datatype level = INFO | WARNING | ERROR

text \<open>
  One constructor per call of \<^verbatim>\<open>logger.info/warning/error\<close> in the source, with the
  values its f-string interpolates.
\<close>

datatype message =
    ConfigLoaded string
  | ConfigNotFound string
  | YAMLParseError
  | InputFolderMissing string
  | MixFileLoaded string nat int
  | ConcatFileLoaded string nat int
  | FileLoaded string nat int
  | LoadFailed string
  | VolumeEffect rat
  | SpeedEffect rat
  | FadeInApplied rat
  | FadeOutApplied rat
  | ReverseEffect
  | NormalizeEffect rat
  | RepeatEffect int
  | NothingToMix
  | MixingAudio nat
  | NothingToConcatenate
  | ConcatenatingAudio nat
  | UnknownEffect "string option"
  | OutputFolderCreated string
  | FileSaved string
  | SaveFailed string
  | Banner
  | PipelineStart
  | MixingFiles nat
  | ConcatenatingFiles nat
  | NothingLoaded
  | PipelineDone
  | UsingConfigFile string
  | FatalError error

section \<open>The audio library: pydub's AudioSegment\<close>

text \<open>
  The program delegates all audio work to the pydub library. An \<^verbatim>\<open>AudioSegment\<close> is
  its raw sample bytes and its format. The operations the program's control flow depends
  on are written out as pydub defines them: \<^verbatim>\<open>_spawn\<close>, \<^verbatim>\<open>__len__\<close> (which also decides the
  truth value of a segment, since the class has no \<^verbatim>\<open>__bool__\<close>), \<^verbatim>\<open>__mul__\<close> by a number,
  \<^verbatim>\<open>__add__\<close> of a segment (\<^verbatim>\<open>append\<close> with no crossfade, after \<^verbatim>\<open>_sync\<close>) and the
  \<^verbatim>\<open>set_*\<close> methods, which return the segment itself when the format already matches.
  The signal processing proper (overlay, gain, fades, reversal, normalisation and the
  three format conversions) is a parameter: a record of functions, each taken to return
  a segment for every argument. Every property below holds for every such record.
\<close>

record audio_segment =
  raw_data :: "nat list"
  sample_width :: nat
  frame_rate :: int
  channels :: nat

record pydub =
  seg_overlay :: "audio_segment \<Rightarrow> audio_segment \<Rightarrow> audio_segment"
  seg_apply_gain :: "audio_segment \<Rightarrow> rat \<Rightarrow> audio_segment"
  seg_fade_in :: "audio_segment \<Rightarrow> rat \<Rightarrow> audio_segment"
  seg_fade_out :: "audio_segment \<Rightarrow> rat \<Rightarrow> audio_segment"
  seg_reverse :: "audio_segment \<Rightarrow> audio_segment"
  seg_normalize :: "audio_segment \<Rightarrow> rat \<Rightarrow> audio_segment"
  convert_channels :: "audio_segment \<Rightarrow> nat \<Rightarrow> audio_segment"
  convert_frame_rate :: "audio_segment \<Rightarrow> int \<Rightarrow> audio_segment"
  convert_sample_width :: "audio_segment \<Rightarrow> nat \<Rightarrow> audio_segment"

definition frame_width :: "audio_segment \<Rightarrow> nat" where
  "frame_width seg = channels seg * sample_width seg"

text \<open>\<^verbatim>\<open>float(len(self._data) // self.frame_width)\<close>\<close>

definition frame_count :: "audio_segment \<Rightarrow> error + nat" where
  "frame_count seg =
     (if frame_width seg = 0 then Inl ZeroDivisionError
      else Inr (length (raw_data seg) div frame_width seg))"

text \<open>
  Python's \<^verbatim>\<open>round\<close> of the quotient \<open>n / d\<close> for \<open>0 < d\<close>: to the nearest integer, a tie
  to the even one. The quotient is taken exactly here; the source computes it in double
  precision.
\<close>

definition round_half_even :: "int \<Rightarrow> int \<Rightarrow> int" where
  "round_half_even n d =
     (let q = n div d; r = n mod d in
      if 2 * r < d then q
      else if d < 2 * r then q + 1
      else if even q then q else q + 1)"

text \<open>
  \<^verbatim>\<open>__len__\<close>: \<^verbatim>\<open>round(1000 * (self.frame_count() / self.frame_rate))\<close>, the length in
  milliseconds. Python refuses a negative \<^verbatim>\<open>__len__\<close> with a ValueError.
\<close>

definition seg_len :: "audio_segment \<Rightarrow> error + nat" where
  "seg_len seg =
     (case frame_count seg of
        Inl e \<Rightarrow> Inl e
      | Inr fc \<Rightarrow>
          if frame_rate seg = 0 then Inl ZeroDivisionError
          else
            (let ms = (if 0 < frame_rate seg
                       then round_half_even (1000 * int fc) (frame_rate seg)
                       else round_half_even (- (1000 * int fc)) (- frame_rate seg))
             in if ms < 0 then Inl ValueError else Inr (nat ms)))"

text \<open>
  The truth value of \<^verbatim>\<open>self.result\<close>, \<^verbatim>\<open>mixed_audio\<close> and \<^verbatim>\<open>concatenated_audio\<close>:
  \<^verbatim>\<open>None\<close> is false, a segment is true when its \<^verbatim>\<open>__len__\<close> is not zero.
\<close>

fun truthy :: "audio_segment option \<Rightarrow> error + bool" where
  "truthy None = Inr False"
| "truthy (Some seg) =
     (case seg_len seg of Inl e \<Rightarrow> Inl e | Inr n \<Rightarrow> Inr (n \<noteq> 0))"

definition spawn :: "audio_segment \<Rightarrow> nat list \<Rightarrow> audio_segment" where
  "spawn seg d = seg\<lparr>raw_data := d\<rparr>"

text \<open>\<^verbatim>\<open>seg * n\<close> for a number: \<^verbatim>\<open>self._spawn(data=self._data * arg)\<close>.\<close>

definition seg_mul :: "audio_segment \<Rightarrow> int \<Rightarrow> audio_segment" where
  "seg_mul seg n = spawn seg (concat (replicate (nat n) (raw_data seg)))"

definition set_channels :: "pydub \<Rightarrow> audio_segment \<Rightarrow> nat \<Rightarrow> audio_segment" where
  "set_channels lib seg c = (if c = channels seg then seg else convert_channels lib seg c)"

definition set_frame_rate :: "pydub \<Rightarrow> audio_segment \<Rightarrow> int \<Rightarrow> audio_segment" where
  "set_frame_rate lib seg r =
     (if r = frame_rate seg then seg else convert_frame_rate lib seg r)"

definition set_sample_width :: "pydub \<Rightarrow> audio_segment \<Rightarrow> nat \<Rightarrow> audio_segment" where
  "set_sample_width lib seg sw =
     (if sw = sample_width seg then seg else convert_sample_width lib seg sw)"

text \<open>\<^verbatim>\<open>_sync\<close>: both segments brought to the larger channel count, rate and width.\<close>

definition sync_to :: "pydub \<Rightarrow> nat \<Rightarrow> int \<Rightarrow> nat \<Rightarrow> audio_segment \<Rightarrow> audio_segment" where
  "sync_to lib c r sw seg =
     set_sample_width lib (set_frame_rate lib (set_channels lib seg c) r) sw"

definition sync :: "pydub \<Rightarrow> audio_segment \<Rightarrow> audio_segment \<Rightarrow> audio_segment \<times> audio_segment" where
  "sync lib a b =
     (let c = max (channels a) (channels b);
          r = max (frame_rate a) (frame_rate b);
          sw = max (sample_width a) (sample_width b)
      in (sync_to lib c r sw a, sync_to lib c r sw b))"

text \<open>\<^verbatim>\<open>a + b\<close> for two segments: \<^verbatim>\<open>self.append(arg, crossfade=0)\<close>.\<close>

definition seg_add :: "pydub \<Rightarrow> audio_segment \<Rightarrow> audio_segment \<Rightarrow> audio_segment" where
  "seg_add lib a b =
     (case sync lib a b of (s1, s2) \<Rightarrow> spawn s1 (raw_data s1 @ raw_data s2))"

section \<open>Configuration\<close>

text \<open>
  An entry of the \<^verbatim>\<open>effects\<close> list: a mapping with an optional \<^verbatim>\<open>type\<close> and the optional
  parameters the six effects read. A key that is absent is \<open>None\<close>. Numbers are exact
  rationals.
\<close>

record effect =
  effect_type :: "string option"
  gain :: "rat option"
  factor :: "rat option"
  fade_in :: "rat option"
  fade_out :: "rat option"
  headroom :: "rat option"
  times_param :: "int option"

text \<open>
  The mapping a configuration document holds, one field per recognised key. A key that
  is present carries a value of the kind the program expects of it: a string, a list of
  file names, a list of effect mappings.
\<close>

record config =
  input_folder :: "string option"
  output_folder :: "string option"
  output_name :: "string option"
  output_formats :: "string list option"
  mix_files :: "string list option"
  concatenate_files :: "string list option"
  audio_files :: "string list option"
  combine_method :: "string option"
  final_combine_method :: "string option"
  effects :: "effect list option"

text \<open>
  What \<^verbatim>\<open>yaml.safe_load\<close> returns: \<^verbatim>\<open>None\<close> for an empty document, a mapping, or some
  other value (a list or a scalar), which like \<^verbatim>\<open>None\<close> has no \<^verbatim>\<open>get\<close> method.
\<close>

datatype yaml_value = YNull | YMapping config | YOther

datatype config_source = Malformed | Document yaml_value

text \<open>\<^verbatim>\<open>self.config.get(key, default)\<close>\<close>

definition config_get :: "yaml_value \<Rightarrow> (config \<Rightarrow> 'a option) \<Rightarrow> 'a \<Rightarrow> error + 'a" where
  "config_get c key dflt =
     (case c of
        YMapping m \<Rightarrow> Inr (case key m of None \<Rightarrow> dflt | Some v \<Rightarrow> v)
      | _ \<Rightarrow> Inl AttributeError)"

section \<open>The effects\<close>

text \<open>
  Each effect method returns the new segment and the log lines it wrote.
\<close>

definition dflt :: "'a option \<Rightarrow> 'a \<Rightarrow> 'a" where
  "dflt v d = (case v of None \<Rightarrow> d | Some x \<Rightarrow> x)"

definition apply_volume_effect ::
  "pydub \<Rightarrow> audio_segment \<Rightarrow> effect \<Rightarrow> audio_segment \<times> (level \<times> message) list" where
  "apply_volume_effect lib audio params =
     (let g = dflt (gain params) 0
      in (seg_apply_gain lib audio g, [(INFO, VolumeEffect g)]))"

text \<open>\<^verbatim>\<open>int(x)\<close>: truncation towards zero.\<close>

definition py_int :: "rat \<Rightarrow> int" where
  "py_int x = (if 0 \<le> x then \<lfloor>x\<rfloor> else \<lceil>x\<rceil>)"

definition apply_speed_effect ::
  "pydub \<Rightarrow> audio_segment \<Rightarrow> effect \<Rightarrow> audio_segment \<times> (level \<times> message) list" where
  "apply_speed_effect lib audio params =
     (let f = dflt (factor params) 1;
          sound_with_altered_frame_rate =
            (spawn audio (raw_data audio))\<lparr>frame_rate := py_int (of_int (frame_rate audio) * f)\<rparr>
      in (set_frame_rate lib sound_with_altered_frame_rate (frame_rate audio),
          [(INFO, SpeedEffect f)]))"

definition apply_fade_effect ::
  "pydub \<Rightarrow> audio_segment \<Rightarrow> effect \<Rightarrow> audio_segment \<times> (level \<times> message) list" where
  "apply_fade_effect lib audio params =
     (let fi = dflt (fade_in params) 0;
          fo = dflt (fade_out params) 0;
          (r1, l1) = (if 0 < fi then (seg_fade_in lib audio fi, [(INFO, FadeInApplied fi)])
                      else (audio, []));
          (r2, l2) = (if 0 < fo then (seg_fade_out lib r1 fo, l1 @ [(INFO, FadeOutApplied fo)])
                      else (r1, l1))
      in (r2, l2))"

definition apply_reverse_effect ::
  "pydub \<Rightarrow> audio_segment \<Rightarrow> effect \<Rightarrow> audio_segment \<times> (level \<times> message) list" where
  "apply_reverse_effect lib audio params = (seg_reverse lib audio, [(INFO, ReverseEffect)])"

definition apply_normalize_effect ::
  "pydub \<Rightarrow> audio_segment \<Rightarrow> effect \<Rightarrow> audio_segment \<times> (level \<times> message) list" where
  "apply_normalize_effect lib audio params =
     (let h = dflt (headroom params) (1 / 10)
      in (seg_normalize lib audio h, [(INFO, NormalizeEffect h)]))"

definition apply_repeat_effect ::
  "pydub \<Rightarrow> audio_segment \<Rightarrow> effect \<Rightarrow> audio_segment \<times> (level \<times> message) list" where
  "apply_repeat_effect lib audio params =
     (let t = dflt (times_param params) 1
      in (seg_mul audio t, [(INFO, RepeatEffect t)]))"

section \<open>The pipeline's state and the world it acts on\<close>

text \<open>
  What the program reads from outside: the configuration files (\<open>None\<close>: no such file;
  \<open>Malformed\<close>: the YAML parser raises), which paths exist, what
  \<^verbatim>\<open>AudioSegment.from_file\<close> decodes (\<open>None\<close>: it raises), and whether \<^verbatim>\<open>os.makedirs\<close> and
  \<^verbatim>\<open>audio.export\<close> succeed.
\<close>

record env =
  open_config :: "string \<Rightarrow> config_source option"
  path_exists :: "string \<Rightarrow> bool"
  from_file :: "string \<Rightarrow> audio_segment option"
  makedirs_ok :: "string \<Rightarrow> bool"
  export_ok :: "string \<Rightarrow> string \<Rightarrow> bool"

record output_file =
  out_path :: string
  out_format :: string
  out_bitrate :: "string option"
  out_audio :: audio_segment

text \<open>
  What the program does to the outside, in order: the lines it logs, the audio files it
  asks the decoder to read, the directories it creates and the files it exports.
\<close>

record world =
  logged :: "(level \<times> message) list"
  reads :: "string list"
  created :: "string list"
  written :: "output_file list"

text \<open>The fields of an \<^verbatim>\<open>AudioPipeline\<close> object.\<close>

record pipeline =
  config :: yaml_value
  audio_segments :: "audio_segment list"
  mix_segments :: "audio_segment list"
  concatenate_segments :: "audio_segment list"
  result :: "audio_segment option"

text \<open>
  A call either returns a value or raises; the world as it is at that moment comes with
  both.
\<close>

datatype 'a res = Ok 'a world | Exc error world

fun then_do :: "'a res \<Rightarrow> ('a \<Rightarrow> world \<Rightarrow> 'b res) \<Rightarrow> 'b res" where
  "then_do (Ok a w) f = f a w"
| "then_do (Exc e w) f = Exc e w"

fun lift :: "error + 'a \<Rightarrow> world \<Rightarrow> 'a res" where
  "lift (Inl e) w = Exc e w"
| "lift (Inr v) w = Ok v w"

definition logger :: "level \<Rightarrow> message \<Rightarrow> world \<Rightarrow> world" where
  "logger lv m w = w\<lparr>logged := logged w @ [(lv, m)]\<rparr>"

definition log_all :: "(level \<times> message) list \<Rightarrow> world \<Rightarrow> world" where
  "log_all ls w = w\<lparr>logged := logged w @ ls\<rparr>"

text \<open>Python's \<^verbatim>\<open>a and b\<close> on truth values that may raise: \<open>b\<close> is not evaluated when \<open>a\<close> is false.\<close>

fun py_and :: "error + bool \<Rightarrow> error + bool \<Rightarrow> error + bool" where
  "py_and (Inl e) b = Inl e"
| "py_and (Inr False) b = Inr False"
| "py_and (Inr True) b = b"

text \<open>\<^verbatim>\<open>os.path.join(a, b)\<close> on POSIX.\<close>

definition path_join :: "string \<Rightarrow> string \<Rightarrow> string" where
  "path_join a b =
     (if take 1 b = ''/'' then b
      else if a = [] \<or> last a = CHR ''/'' then a @ b
      else a @ ''/'' @ b)"

section \<open>Loading\<close>

definition load_config :: "env \<Rightarrow> string \<Rightarrow> world \<Rightarrow> yaml_value res" where
  "load_config e config_file w =
     (case open_config e config_file of
        None \<Rightarrow> Exc FileNotFoundError (logger ERROR (ConfigNotFound config_file) w)
      | Some Malformed \<Rightarrow> Exc YAMLError (logger ERROR YAMLParseError w)
      | Some (Document c) \<Rightarrow> Ok c (logger INFO (ConfigLoaded config_file) w))"

text \<open>\<^verbatim>\<open>AudioPipeline.__init__\<close>\<close>

definition init :: "env \<Rightarrow> string \<Rightarrow> world \<Rightarrow> pipeline res" where
  "init e config_file w =
     then_do (load_config e config_file w) (\<lambda>c w.
       Ok \<lparr>config = c, audio_segments = [], mix_segments = [],
           concatenate_segments = [], result = None\<rparr> w)"

text \<open>
  The body the three loading loops of \<^verbatim>\<open>load_audio_files\<close> share; they differ in the list
  they append to and in the line they log. The log line is built inside the \<^verbatim>\<open>try\<close>,
  after the append, so a segment whose \<^verbatim>\<open>len\<close> raises is kept and reported as failed.
\<close>

fun load_files ::
  "env \<Rightarrow> string \<Rightarrow> (string \<Rightarrow> nat \<Rightarrow> int \<Rightarrow> message) \<Rightarrow> string list
     \<Rightarrow> audio_segment list \<Rightarrow> world \<Rightarrow> audio_segment list \<times> world" where
  "load_files e folder msg [] segs w = (segs, w)"
| "load_files e folder msg (audio_file # rest) segs w =
     (let file_path = path_join folder audio_file;
          w1 = w\<lparr>reads := reads w @ [file_path]\<rparr>
      in case from_file e file_path of
           None \<Rightarrow> load_files e folder msg rest segs (logger ERROR (LoadFailed audio_file) w1)
         | Some audio \<Rightarrow>
             (case seg_len audio of
                Inl err \<Rightarrow>
                  load_files e folder msg rest (segs @ [audio])
                    (logger ERROR (LoadFailed audio_file) w1)
              | Inr n \<Rightarrow>
                  load_files e folder msg rest (segs @ [audio])
                    (logger INFO (msg audio_file n (frame_rate audio)) w1)))"

definition load_audio_files :: "env \<Rightarrow> pipeline \<Rightarrow> world \<Rightarrow> pipeline res" where
  "load_audio_files e p w =
     then_do (lift (config_get (config p) input_folder ''input_audio'') w) (\<lambda>folder w.
       if \<not> path_exists e folder
       then Exc FileNotFoundError (logger ERROR (InputFolderMissing folder) w)
       else
         then_do (lift (config_get (config p) mix_files []) w) (\<lambda>mix w.
           case load_files e folder MixFileLoaded mix (mix_segments p) w of (ms, w) \<Rightarrow>
           then_do (lift (config_get (config p) concatenate_files []) w) (\<lambda>conc w.
             case load_files e folder ConcatFileLoaded conc (concatenate_segments p) w of
               (cs, w) \<Rightarrow>
             then_do (lift (config_get (config p) audio_files []) w) (\<lambda>legacy w.
               if legacy \<noteq> [] \<and> mix = [] \<and> conc = []
               then
                 (case load_files e folder FileLoaded legacy (audio_segments p) w of
                    (as, w) \<Rightarrow>
                      Ok (p\<lparr>mix_segments := ms, concatenate_segments := cs,
                              audio_segments := as\<rparr>) w)
               else Ok (p\<lparr>mix_segments := ms, concatenate_segments := cs\<rparr>) w))))"

section \<open>Combining\<close>

definition mix_audio_files :: "pydub \<Rightarrow> pipeline \<Rightarrow> world \<Rightarrow> audio_segment option \<times> world" where
  "mix_audio_files lib p w =
     (case audio_segments p of
        [] \<Rightarrow> (None, logger WARNING NothingToMix w)
      | first # rest \<Rightarrow>
          (Some (foldl (seg_overlay lib) first rest),
           logger INFO (MixingAudio (length (audio_segments p))) w))"

definition concatenate_audio_files ::
  "pydub \<Rightarrow> pipeline \<Rightarrow> world \<Rightarrow> audio_segment option \<times> world" where
  "concatenate_audio_files lib p w =
     (case audio_segments p of
        [] \<Rightarrow> (None, logger WARNING NothingToConcatenate w)
      | first # rest \<Rightarrow>
          (Some (foldl (seg_add lib) first rest),
           logger INFO (ConcatenatingAudio (length (audio_segments p))) w))"

section \<open>The effect chain\<close>

text \<open>The dictionary \<^verbatim>\<open>effect_functions\<close>; a \<^verbatim>\<open>type\<close> that is absent is in no dictionary.\<close>

definition effect_functions ::
  "pydub \<Rightarrow> string option
     \<Rightarrow> (audio_segment \<Rightarrow> effect \<Rightarrow> audio_segment \<times> (level \<times> message) list) option" where
  "effect_functions lib t =
     (case t of
        None \<Rightarrow> None
      | Some name \<Rightarrow>
          map_of [(''volume'', apply_volume_effect lib),
                  (''speed'', apply_speed_effect lib),
                  (''fade'', apply_fade_effect lib),
                  (''reverse'', apply_reverse_effect lib),
                  (''normalize'', apply_normalize_effect lib),
                  (''repeat'', apply_repeat_effect lib)] name)"

text \<open>The loop of \<^verbatim>\<open>apply_effects\<close> over the remaining effects.\<close>

fun effects_loop ::
  "pydub \<Rightarrow> effect list \<Rightarrow> audio_segment \<Rightarrow> world \<Rightarrow> audio_segment \<times> world" where
  "effects_loop lib [] res w = (res, w)"
| "effects_loop lib (eff # rest) res w =
     (case effect_functions lib (effect_type eff) of
        Some f \<Rightarrow> (case f res eff of (r, ls) \<Rightarrow> effects_loop lib rest r (log_all ls w))
      | None \<Rightarrow>
          effects_loop lib rest res (logger WARNING (UnknownEffect (effect_type eff)) w))"

definition apply_effects :: "pydub \<Rightarrow> pipeline \<Rightarrow> audio_segment \<Rightarrow> world \<Rightarrow> audio_segment res" where
  "apply_effects lib p audio w =
     then_do (lift (config_get (config p) effects []) w) (\<lambda>effs w.
       case effects_loop lib effs audio w of (r, w) \<Rightarrow> Ok r w)"

section \<open>Saving\<close>

fun export_all ::
  "env \<Rightarrow> string \<Rightarrow> string \<Rightarrow> audio_segment \<Rightarrow> string list \<Rightarrow> world \<Rightarrow> world" where
  "export_all e folder name audio [] w = w"
| "export_all e folder name audio (fmt # rest) w =
     (let output_path = path_join folder (name @ ''.'' @ fmt)
      in if export_ok e output_path fmt
         then export_all e folder name audio rest
                (logger INFO (FileSaved output_path)
                   (w\<lparr>written := written w @
                        [\<lparr>out_path = output_path, out_format = fmt,
                          out_bitrate = (if fmt = ''mp3'' then Some ''192k'' else None),
                          out_audio = audio\<rparr>]\<rparr>))
         else export_all e folder name audio rest (logger ERROR (SaveFailed fmt) w))"

definition save_audio ::
  "env \<Rightarrow> pipeline \<Rightarrow> audio_segment \<Rightarrow> string \<Rightarrow> world \<Rightarrow> unit res" where
  "save_audio e p audio name w =
     then_do (lift (config_get (config p) output_folder ''output_audio'') w) (\<lambda>folder w.
     then_do (lift (config_get (config p) output_formats [''mp3'', ''wav'']) w) (\<lambda>fmts w.
     then_do
       (if \<not> path_exists e folder
        then (if makedirs_ok e folder
              then Ok () (logger INFO (OutputFolderCreated folder)
                            (w\<lparr>created := created w @ [folder]\<rparr>))
              else Exc OSError w)
        else Ok () w) (\<lambda>u w.
     Ok () (export_all e folder name audio fmts w))))"

section \<open>The run\<close>

text \<open>
  Steps 2 and 3 of \<^verbatim>\<open>run\<close> (lines 319 to 361): the combination. \<open>None\<close> is the early
  \<^verbatim>\<open>return\<close> of line 361. The tests \<^verbatim>\<open>if mixed_audio and concatenated_audio\<close>,
  \<^verbatim>\<open>elif mixed_audio\<close>, \<^verbatim>\<open>elif concatenated_audio\<close> are truth-value tests of segments.
\<close>

definition combine :: "pydub \<Rightarrow> pipeline \<Rightarrow> world \<Rightarrow> pipeline option res" where
  "combine lib p w =
     (if mix_segments p \<noteq> [] \<or> concatenate_segments p \<noteq> [] then
        (case (case mix_segments p of
                 [] \<Rightarrow> (None, w)
               | first # rest \<Rightarrow>
                   (Some (foldl (seg_overlay lib) first rest),
                    logger INFO (MixingFiles (length (mix_segments p))) w)) of
           (mixed_audio, w) \<Rightarrow>
         case (case concatenate_segments p of
                 [] \<Rightarrow> (None, w)
               | first # rest \<Rightarrow>
                   (Some (foldl (seg_add lib) first rest),
                    logger INFO (ConcatenatingFiles (length (concatenate_segments p))) w)) of
           (concatenated_audio, w) \<Rightarrow>
         then_do (lift (py_and (truthy mixed_audio) (truthy concatenated_audio)) w) (\<lambda>both w.
           if both then
             then_do (lift (config_get (config p) final_combine_method ''concatenate'') w)
               (\<lambda>final_combine w.
                  case (mixed_audio, concatenated_audio) of
                    (Some m, Some c) \<Rightarrow>
                      Ok (Some (p\<lparr>result :=
                            Some (if final_combine = ''overlay'' then seg_overlay lib m c
                                  else seg_add lib m c)\<rparr>)) w
                  | _ \<Rightarrow> Exc AttributeError w)
           else
             then_do (lift (truthy mixed_audio) w) (\<lambda>m w.
               if m then Ok (Some (p\<lparr>result := mixed_audio\<rparr>)) w
               else
                 then_do (lift (truthy concatenated_audio) w) (\<lambda>c w.
                   if c then Ok (Some (p\<lparr>result := concatenated_audio\<rparr>)) w
                   else Ok (Some p) w))))
      else if audio_segments p \<noteq> [] then
        then_do (lift (config_get (config p) combine_method ''concatenate'') w) (\<lambda>cm w.
          if cm = ''mix''
          then (case mix_audio_files lib p w of (r, w) \<Rightarrow> Ok (Some (p\<lparr>result := r\<rparr>)) w)
          else (case concatenate_audio_files lib p w of
                  (r, w) \<Rightarrow> Ok (Some (p\<lparr>result := r\<rparr>)) w))
      else Ok None (logger ERROR NothingLoaded w))"

text \<open>Step 4 (lines 364 and 365): the effects, when \<^verbatim>\<open>self.result\<close> is true.\<close>

definition effects_step :: "pydub \<Rightarrow> pipeline \<Rightarrow> world \<Rightarrow> pipeline res" where
  "effects_step lib p w =
     then_do (lift (truthy (result p)) w) (\<lambda>b w.
       if b then
         (case result p of
            Some audio \<Rightarrow>
              then_do (apply_effects lib p audio w) (\<lambda>r w. Ok (p\<lparr>result := Some r\<rparr>) w)
          | None \<Rightarrow> Ok p w)
       else Ok p w)"

text \<open>Step 5 (lines 368 to 370): the export, when \<^verbatim>\<open>self.result\<close> is true.\<close>

definition save_step :: "env \<Rightarrow> pipeline \<Rightarrow> world \<Rightarrow> pipeline res" where
  "save_step e p w =
     then_do (lift (truthy (result p)) w) (\<lambda>b w.
       if b then
         (case result p of
            Some audio \<Rightarrow>
              then_do (lift (config_get (config p) output_name ''result'') w) (\<lambda>name w.
              then_do (save_audio e p audio name w) (\<lambda>u w. Ok p w))
          | None \<Rightarrow> Ok p w)
       else Ok p w)"

definition run :: "pydub \<Rightarrow> env \<Rightarrow> pipeline \<Rightarrow> world \<Rightarrow> pipeline res" where
  "run lib e p w =
     then_do (load_audio_files e p
                (log_all [(INFO, Banner), (INFO, PipelineStart), (INFO, Banner)] w)) (\<lambda>p w.
     then_do (combine lib p w) (\<lambda>c w.
       case c of
         None \<Rightarrow> Ok p w
       | Some p \<Rightarrow>
           then_do (effects_step lib p w) (\<lambda>p w.
           then_do (save_step e p w) (\<lambda>p w.
             Ok p (log_all [(INFO, Banner), (INFO, PipelineDone), (INFO, Banner)] w)))))"

text \<open>
  \<^verbatim>\<open>main\<close>, given \<^verbatim>\<open>sys.argv\<close>: an exception is logged and raised again. The process ends
  with status 0 when \<^verbatim>\<open>main\<close> returns and with status 1 when an exception leaves it.
\<close>

definition chosen_config :: "string list \<Rightarrow> world \<Rightarrow> string \<times> world" where
  "chosen_config argv w =
     (case argv of
        prog # config_file # args \<Rightarrow>
          (config_file, logger INFO (UsingConfigFile config_file) w)
      | _ \<Rightarrow> (''config.yaml'', w))"

definition main :: "pydub \<Rightarrow> env \<Rightarrow> string list \<Rightarrow> world \<Rightarrow> pipeline res" where
  "main lib e argv w =
     (case chosen_config argv w of
        (config_file, w) \<Rightarrow>
          (case then_do (init e config_file w) (run lib e) of
             Ok p w \<Rightarrow> Ok p w
           | Exc err w \<Rightarrow> Exc err (logger ERROR (FatalError err) w)))"

fun exit_status :: "'a res \<Rightarrow> nat" where
  "exit_status (Ok a w) = 0"
| "exit_status (Exc err w) = 1"

section \<open>Notions the properties are stated with\<close>


text \<open>
  The values of \<^verbatim>\<open>mixed_audio\<close> and \<^verbatim>\<open>concatenated_audio\<close> in \<^verbatim>\<open>run\<close> (lines 322 to 337).
\<close>

definition mixed_result :: "pydub \<Rightarrow> pipeline \<Rightarrow> audio_segment option" where
  "mixed_result lib p =
     (case mix_segments p of
        [] \<Rightarrow> None
      | first # rest \<Rightarrow> Some (foldl (seg_overlay lib) first rest))"

definition concatenated_result :: "pydub \<Rightarrow> pipeline \<Rightarrow> audio_segment option" where
  "concatenated_result lib p =
     (case concatenate_segments p of
        [] \<Rightarrow> None
      | first # rest \<Rightarrow> Some (foldl (seg_add lib) first rest))"

text \<open>The lines \<^verbatim>\<open>run\<close> logs while it computes the two.\<close>

definition combine_lines :: "pipeline \<Rightarrow> (level \<times> message) list" where
  "combine_lines p =
     (if mix_segments p = [] then [] else [(INFO, MixingFiles (length (mix_segments p)))])
     @ (if concatenate_segments p = [] then []
        else [(INFO, ConcatenatingFiles (length (concatenate_segments p)))])"





section \<open>Concrete inputs\<close>

text \<open>
  A library whose overlay keeps its first argument and whose effects change nothing; a
  mono 8-bit segment at 5000 Hz, so that five bytes last one millisecond.
\<close>

definition demo_lib :: pydub where
  "demo_lib =
     \<lparr>seg_overlay = (\<lambda>a b. a), seg_apply_gain = (\<lambda>a g. a), seg_fade_in = (\<lambda>a d. a),
      seg_fade_out = (\<lambda>a d. a), seg_reverse = (\<lambda>a. a), seg_normalize = (\<lambda>a h. a),
      convert_channels = (\<lambda>a c. a\<lparr>channels := c\<rparr>),
      convert_frame_rate = (\<lambda>a r. a\<lparr>frame_rate := r\<rparr>),
      convert_sample_width = (\<lambda>a sw. a\<lparr>sample_width := sw\<rparr>)\<rparr>"

definition tone :: "nat list \<Rightarrow> audio_segment" where
  "tone d = \<lparr>raw_data = d, sample_width = 1, frame_rate = 5000, channels = 1\<rparr>"

definition no_keys :: config where
  "no_keys =
     \<lparr>input_folder = None, output_folder = None, output_name = None, output_formats = None,
      mix_files = None, concatenate_files = None, audio_files = None, combine_method = None,
      final_combine_method = None, effects = None\<rparr>"

definition no_effect :: effect where
  "no_effect =
     \<lparr>effect_type = None, gain = None, factor = None, fade_in = None, fade_out = None,
      headroom = None, times_param = None\<rparr>"

definition fresh :: "yaml_value \<Rightarrow> pipeline" where
  "fresh c =
     \<lparr>config = c, audio_segments = [], mix_segments = [], concatenate_segments = [],
      result = None\<rparr>"

definition quiet :: world where
  "quiet = \<lparr>logged = [], reads = [], created = [], written = []\<rparr>"

text \<open>
  A file system with one configuration document at \<^verbatim>\<open>config.yaml\<close>, the directory
  \<^verbatim>\<open>input_audio\<close>, and the audio files given as pairs of path and segment.
\<close>

definition disk :: "yaml_value \<Rightarrow> (string \<times> audio_segment) list \<Rightarrow> env" where
  "disk c files =
     \<lparr>open_config = (\<lambda>f. if f = ''config.yaml'' then Some (Document c) else None),
      path_exists = (\<lambda>f. f = ''input_audio''),
      from_file = map_of files,
      makedirs_ok = (\<lambda>f. True),
      export_ok = (\<lambda>f fmt. True)\<rparr>"

section \<open>Properties\<close>

text \<open>
  C8. For every buffer, the repeat effect with \<^verbatim>\<open>times=1\<close> returns a buffer equal to the
  input; it writes its one log line. The same holds when \<^verbatim>\<open>times\<close> is absent, since the
  default is 1.
\<close>

theorem repeat_once_identity:
  "apply_repeat_effect lib audio (params\<lparr>times_param := Some 1\<rparr>)
     = (audio, [(INFO, RepeatEffect 1)])
   \<and> apply_repeat_effect lib audio (params\<lparr>times_param := None\<rparr>)
     = (audio, [(INFO, RepeatEffect 1)])"
  by (simp add: apply_repeat_effect_def dflt_def seg_mul_def spawn_def)

subsection \<open>Elementary facts\<close>

lemmas fixture_defs =
  demo_lib_def tone_def no_keys_def no_effect_def fresh_def quiet_def disk_def

lemmas len_defs = seg_len_def frame_count_def frame_width_def round_half_even_def Let_def

lemma then_do_lift_Ok:
  "then_do (lift x w) f = Ok r w' \<longleftrightarrow> (\<exists>v. x = Inr v \<and> f v w = Ok r w')"
  by (cases x) auto

lemma truthy_True_Some: "truthy x = Inr True \<Longrightarrow> \<exists>a. x = Some a"
  by (cases x) auto

lemma config_get_mapping: "config_get (YMapping m) key d = Inr (dflt (key m) d)"
  by (simp add: config_get_def dflt_def)





lemma load_files_reads:
  "reads (snd (load_files e folder msg fs segs w)) = reads w @ map (path_join folder) fs"
  by (induction fs arbitrary: segs w)
     (auto simp: Let_def logger_def split: option.splits sum.splits)

lemma load_files_written:
  "written (snd (load_files e folder msg fs segs w)) = written w"
  by (induction fs arbitrary: segs w)
     (auto simp: Let_def logger_def split: option.splits sum.splits)

lemma load_files_created:
  "created (snd (load_files e folder msg fs segs w)) = created w"
  by (induction fs arbitrary: segs w)
     (auto simp: Let_def logger_def split: option.splits sum.splits)

lemma load_files_frame:
  assumes "load_files e folder msg fs segs w = (segs', w')"
  shows "written w' = written w \<and> created w' = created w"
  using load_files_written [of e folder msg fs segs w]
        load_files_created [of e folder msg fs segs w] assms by simp

lemma load_files_segs:
  "fst (load_files e folder msg fs segs w)
     = segs @ List.map_filter (from_file e) (map (path_join folder) fs)"
  by (induction fs arbitrary: segs w)
     (auto simp: Let_def List.map_filter_simps split: option.splits sum.splits)


lemma load_audio_files_mapping:
  assumes "config p = YMapping m"
    and "path_exists e (dflt (input_folder m) ''input_audio'')"
  shows "load_audio_files e p w =
    (case load_files e (dflt (input_folder m) ''input_audio'') MixFileLoaded
            (dflt (mix_files m) []) (mix_segments p) w of
       (ms, w1) \<Rightarrow>
     case load_files e (dflt (input_folder m) ''input_audio'') ConcatFileLoaded
            (dflt (concatenate_files m) []) (concatenate_segments p) w1 of
       (cs, w2) \<Rightarrow>
     if dflt (audio_files m) [] \<noteq> [] \<and> dflt (mix_files m) [] = []
        \<and> dflt (concatenate_files m) [] = []
     then (case load_files e (dflt (input_folder m) ''input_audio'') FileLoaded
                  (dflt (audio_files m) []) (audio_segments p) w2 of
             (as, w3) \<Rightarrow>
               Ok (p\<lparr>mix_segments := ms, concatenate_segments := cs, audio_segments := as\<rparr>) w3)
     else Ok (p\<lparr>mix_segments := ms, concatenate_segments := cs\<rparr>) w2)"
  using assms
  by (simp add: load_audio_files_def config_get_mapping split: prod.splits)


lemma load_audio_files_frame:
  assumes "load_audio_files e p w = Ok p' w'"
  shows "written w' = written w \<and> created w' = created w
         \<and> result p' = result p \<and> config p' = config p"
proof (cases "config p")
  case (YMapping m)
  show ?thesis
  proof (cases "path_exists e (dflt (input_folder m) ''input_audio'')")
    case True
    obtain ms w1 where l1: "load_files e (dflt (input_folder m) ''input_audio'') MixFileLoaded
            (dflt (mix_files m) []) (mix_segments p) w = (ms, w1)"
      by (cases "load_files e (dflt (input_folder m) ''input_audio'') MixFileLoaded
            (dflt (mix_files m) []) (mix_segments p) w")
    obtain cs w2 where l2: "load_files e (dflt (input_folder m) ''input_audio'') ConcatFileLoaded
            (dflt (concatenate_files m) []) (concatenate_segments p) w1 = (cs, w2)"
      by (cases "load_files e (dflt (input_folder m) ''input_audio'') ConcatFileLoaded
            (dflt (concatenate_files m) []) (concatenate_segments p) w1")
    obtain as w3 where l3: "load_files e (dflt (input_folder m) ''input_audio'') FileLoaded
                  (dflt (audio_files m) []) (audio_segments p) w2 = (as, w3)"
      by (cases "load_files e (dflt (input_folder m) ''input_audio'') FileLoaded
                  (dflt (audio_files m) []) (audio_segments p) w2")
    have f1: "written w1 = written w \<and> created w1 = created w"
      by (rule load_files_frame [OF l1])
    have f2: "written w2 = written w1 \<and> created w2 = created w1"
      by (rule load_files_frame [OF l2])
    have f3: "written w3 = written w2 \<and> created w3 = created w2"
      by (rule load_files_frame [OF l3])
    show ?thesis
      using assms f1 f2 f3
      by (simp add: load_audio_files_mapping [OF YMapping True] l1 l2 l3 split: if_splits)
        auto
  next
    case False
    then show ?thesis
      using assms YMapping by (simp add: load_audio_files_def config_get_mapping)
  qed
next
  case YNull
  then show ?thesis using assms by (simp add: load_audio_files_def config_get_def)
next
  case YOther
  then show ?thesis using assms by (simp add: load_audio_files_def config_get_def)
qed

subsection \<open>The effect chain\<close>





subsection \<open>Loading\<close>

text \<open>
  C3. When the configuration is a mapping and the input folder exists,
  \<^verbatim>\<open>load_audio_files\<close> asks the decoder for the files of the mix list, then of the
  concatenate list, and then for the files of the legacy \<^verbatim>\<open>audio_files\<close> list exactly when
  that list is non-empty and both \<^verbatim>\<open>mix_files\<close> and \<^verbatim>\<open>concatenate_files\<close> are empty.
  The legacy collection grows by the legacy files that decode in that case, and is left
  as it was otherwise.
\<close>

theorem legacy_list_only_without_new_lists:
  assumes "config p = YMapping m"
    and "folder = dflt (input_folder m) ''input_audio''"
    and "path_exists e folder"
    and "mix = dflt (mix_files m) []"
    and "conc = dflt (concatenate_files m) []"
    and "legacy = dflt (audio_files m) []"
  shows "\<exists>p' w'. load_audio_files e p w = Ok p' w'
           \<and> reads w' = reads w @ map (path_join folder)
                 (mix @ conc @ (if legacy \<noteq> [] \<and> mix = [] \<and> conc = [] then legacy else []))
           \<and> audio_segments p' = audio_segments p @
                 (if legacy \<noteq> [] \<and> mix = [] \<and> conc = []
                  then List.map_filter (from_file e) (map (path_join folder) legacy)
                  else [])"
proof -
  obtain ms w1 where l1: "load_files e folder MixFileLoaded mix (mix_segments p) w = (ms, w1)"
    by (cases "load_files e folder MixFileLoaded mix (mix_segments p) w")
  obtain cs w2 where l2:
    "load_files e folder ConcatFileLoaded conc (concatenate_segments p) w1 = (cs, w2)"
    by (cases "load_files e folder ConcatFileLoaded conc (concatenate_segments p) w1")
  obtain as w3 where l3: "load_files e folder FileLoaded legacy (audio_segments p) w2 = (as, w3)"
    by (cases "load_files e folder FileLoaded legacy (audio_segments p) w2")
  have r1: "reads w1 = reads w @ map (path_join folder) mix"
    using load_files_reads [of e folder MixFileLoaded mix "mix_segments p" w] l1 by simp
  have r2: "reads w2 = reads w1 @ map (path_join folder) conc"
    using load_files_reads [of e folder ConcatFileLoaded conc "concatenate_segments p" w1] l2
    by simp
  have r3: "reads w3 = reads w2 @ map (path_join folder) legacy"
    using load_files_reads [of e folder FileLoaded legacy "audio_segments p" w2] l3 by simp
  have s3: "as = audio_segments p @ List.map_filter (from_file e) (map (path_join folder) legacy)"
    using load_files_segs [of e folder FileLoaded legacy "audio_segments p" w2] l3 by simp
  have run: "load_audio_files e p w =
     (if legacy \<noteq> [] \<and> mix = [] \<and> conc = []
      then Ok (p\<lparr>mix_segments := ms, concatenate_segments := cs, audio_segments := as\<rparr>) w3
      else Ok (p\<lparr>mix_segments := ms, concatenate_segments := cs\<rparr>) w2)"
    using assms l1 l2 l3 by (simp add: load_audio_files_mapping)
  show ?thesis
  proof (cases "legacy \<noteq> [] \<and> mix = [] \<and> conc = []")
    case True
    then show ?thesis using run r1 r2 r3 s3 by simp
  next
    case False
    then show ?thesis using run r1 r2 by auto
  qed
qed

theorem legacy_list_only_without_new_lists_witness:
  "(\<exists>p' w'. load_audio_files
        (disk (YMapping (no_keys\<lparr>audio_files := Some [''a.wav'', ''b.wav'']\<rparr>))
           [(''input_audio/a.wav'', tone [1, 2])])
        (fresh (YMapping (no_keys\<lparr>audio_files := Some [''a.wav'', ''b.wav'']\<rparr>)))
        quiet = Ok p' w'
      \<and> reads w' = [''input_audio/a.wav'', ''input_audio/b.wav'']
      \<and> audio_segments p' = [tone [1, 2]])
   \<and> (\<exists>p' w'. load_audio_files
        (disk (YMapping (no_keys\<lparr>audio_files := Some [''a.wav''], mix_files := Some [''m.wav'']\<rparr>))
           [(''input_audio/a.wav'', tone [1, 2])])
        (fresh (YMapping (no_keys\<lparr>audio_files := Some [''a.wav''], mix_files := Some [''m.wav'']\<rparr>)))
        quiet = Ok p' w'
      \<and> reads w' = [''input_audio/m.wav'']
      \<and> audio_segments p' = [])"
proof -
  let ?m1 = "no_keys\<lparr>audio_files := Some [''a.wav'', ''b.wav'']\<rparr>"
  let ?m2 = "no_keys\<lparr>audio_files := Some [''a.wav''], mix_files := Some [''m.wav'']\<rparr>"
  let ?files = "[(''input_audio/a.wav'', tone [1, 2])]"
  have a: "config (fresh (YMapping ?m1)) = YMapping ?m1"
    and b: "config (fresh (YMapping ?m2)) = YMapping ?m2"
    by (simp_all add: fresh_def)
  have f1: "''input_audio'' = dflt (input_folder ?m1) ''input_audio''"
    and f2: "''input_audio'' = dflt (input_folder ?m2) ''input_audio''"
    by (simp_all add: dflt_def no_keys_def)
  have x1: "path_exists (disk (YMapping ?m1) ?files) ''input_audio''"
    and x2: "path_exists (disk (YMapping ?m2) ?files) ''input_audio''"
    by (simp_all add: disk_def)
  have l1: "[] = dflt (mix_files ?m1) []" "[] = dflt (concatenate_files ?m1) []"
      "[''a.wav'', ''b.wav''] = dflt (audio_files ?m1) []"
    and l2: "[''m.wav''] = dflt (mix_files ?m2) []" "[] = dflt (concatenate_files ?m2) []"
      "[''a.wav''] = dflt (audio_files ?m2) []"
    by (simp_all add: dflt_def no_keys_def)
  show ?thesis
    using legacy_list_only_without_new_lists [OF a f1 x1 l1, where w = quiet]
          legacy_list_only_without_new_lists [OF b f2 x2 l2, where w = quiet]
    by (simp add: fixture_defs path_join_def List.map_filter_simps)
qed

text \<open>
  C6. If the configured \<^verbatim>\<open>input_folder\<close> does not exist, \<^verbatim>\<open>load_audio_files\<close> logs an
  error and raises FileNotFoundError; \<^verbatim>\<open>run\<close> ends with that exception after its three
  opening log lines, having written no file and created no directory.
\<close>

theorem missing_input_folder_aborts:
  assumes "config p = YMapping m"
    and "folder = dflt (input_folder m) ''input_audio''"
    and "\<not> path_exists e folder"
  shows "load_audio_files e p w
           = Exc FileNotFoundError (logger ERROR (InputFolderMissing folder) w)
         \<and> (\<exists>w'. run lib e p w = Exc FileNotFoundError w' \<and> written w' = written w
                  \<and> created w' = created w
                  \<and> logged w' = logged w @ [(INFO, Banner), (INFO, PipelineStart),
                         (INFO, Banner), (ERROR, InputFolderMissing folder)])"
  using assms
  by (simp add: run_def load_audio_files_def config_get_mapping logger_def log_all_def)

theorem missing_input_folder_aborts_witness:
  "\<not> path_exists (disk (YMapping (no_keys\<lparr>input_folder := Some ''nowhere''\<rparr>)) [])
        ''nowhere''
   \<and> (\<exists>w'. run demo_lib (disk (YMapping (no_keys\<lparr>input_folder := Some ''nowhere''\<rparr>)) [])
              (fresh (YMapping (no_keys\<lparr>input_folder := Some ''nowhere''\<rparr>))) quiet
            = Exc FileNotFoundError w'
          \<and> written w' = [] \<and> created w' = []
          \<and> logged w' = [(INFO, Banner), (INFO, PipelineStart), (INFO, Banner),
                          (ERROR, InputFolderMissing ''nowhere'')])"
proof -
  let ?m = "no_keys\<lparr>input_folder := Some ''nowhere''\<rparr>"
  have a: "config (fresh (YMapping ?m)) = YMapping ?m"
    by (simp add: fresh_def)
  have f: "''nowhere'' = dflt (input_folder ?m) ''input_audio''"
    by (simp add: dflt_def)
  have x: "\<not> path_exists (disk (YMapping ?m) []) ''nowhere''"
    by (simp add: disk_def)
  show ?thesis
    using x missing_input_folder_aborts [OF a f x, where w = quiet and lib = demo_lib]
    by (simp add: quiet_def)
qed

subsection \<open>Configuration documents\<close>

text \<open>
  C10. For a configuration file that exists and holds an empty YAML document,
  \<^verbatim>\<open>load_config\<close> returns \<^verbatim>\<open>None\<close> and raises nothing. Every run over that configuration
  ends with an AttributeError at its first access of a configuration key, in
  \<^verbatim>\<open>load_audio_files\<close>; \<^verbatim>\<open>main\<close> logs it, raises it again, and the process ends with
  status 1.
\<close>

theorem empty_document_config:
  assumes "open_config e f = Some (Document YNull)"
  shows "load_config e f w = Ok YNull (logger INFO (ConfigLoaded f) w)
         \<and> load_audio_files e (p\<lparr>config := YNull\<rparr>) w' = Exc AttributeError w'
         \<and> run lib e (p\<lparr>config := YNull\<rparr>) w' =
             Exc AttributeError
               (log_all [(INFO, Banner), (INFO, PipelineStart), (INFO, Banner)] w')
         \<and> main lib e [prog, f] w =
             Exc AttributeError
               (logger ERROR (FatalError AttributeError)
                  (log_all [(INFO, Banner), (INFO, PipelineStart), (INFO, Banner)]
                     (logger INFO (ConfigLoaded f) (logger INFO (UsingConfigFile f) w))))
         \<and> exit_status (main lib e [prog, f] w) = 1"
  using assms
  by (simp add: load_config_def load_audio_files_def run_def main_def init_def
        chosen_config_def config_get_def)

theorem empty_document_config_witness:
  "open_config (disk YNull []) ''config.yaml'' = Some (Document YNull)
   \<and> load_config (disk YNull []) ''config.yaml'' quiet
       = Ok YNull (quiet\<lparr>logged := [(INFO, ConfigLoaded ''config.yaml'')]\<rparr>)
   \<and> exit_status (main demo_lib (disk YNull []) [''audio_pipeline.py'', ''config.yaml''] quiet)
       = 1"
proof -
  have h: "open_config (disk YNull []) ''config.yaml'' = Some (Document YNull)"
    by (simp add: disk_def)
  show ?thesis
    using h empty_document_config [OF h, where w = quiet and lib = demo_lib
        and prog = "''audio_pipeline.py''"]
    by (simp add: quiet_def logger_def)
qed

subsection \<open>Nothing loaded\<close>

text \<open>
  C1, as the code has it. If loading returns and none of the three collections holds a
  buffer, \<^verbatim>\<open>run\<close> logs the error, leaves the result absent, writes no file and returns
  normally: no exception reaches the caller, \<^verbatim>\<open>main\<close> returns as well, and the process
  ends with status 0.
\<close>

theorem nothing_loaded_returns_normally:
  assumes "chosen_config argv w = (cf, w1)"
    and "init e cf w1 = Ok p w2"
    and "load_audio_files e p
           (log_all [(INFO, Banner), (INFO, PipelineStart), (INFO, Banner)] w2) = Ok p' w3"
    and "mix_segments p' = []"
    and "concatenate_segments p' = []"
    and "audio_segments p' = []"
  shows "run lib e p w2 = Ok p' (logger ERROR NothingLoaded w3)
         \<and> main lib e argv w = Ok p' (logger ERROR NothingLoaded w3)
         \<and> exit_status (main lib e argv w) = 0
         \<and> written (logger ERROR NothingLoaded w3) = written w
         \<and> result p' = None"
proof -
  have r: "run lib e p w2 = Ok p' (logger ERROR NothingLoaded w3)"
    using assms(3-6) by (simp add: run_def combine_def)
  have m: "main lib e argv w = Ok p' (logger ERROR NothingLoaded w3)"
    using assms(1,2) r by (simp add: main_def)
  have w1: "written w1 = written w"
    using assms(1) by (auto simp: chosen_config_def logger_def split: list.splits)
  have w2: "written w2 = written w1 \<and> result p = None"
    using assms(2)
    by (auto simp: init_def load_config_def logger_def split: option.splits config_source.splits)
  have w3: "written w3 = written w2 \<and> result p' = result p"
    using load_audio_files_frame [OF assms(3)] by (simp add: log_all_def)
  show ?thesis using r m w1 w2 w3 by (simp add: logger_def)
qed


theorem nothing_loaded_returns_normally_witness:
  "main demo_lib (disk (YMapping no_keys) []) [''audio_pipeline.py''] quiet
     = Ok (fresh (YMapping no_keys))
          (quiet\<lparr>logged := [(INFO, ConfigLoaded ''config.yaml''), (INFO, Banner),
                             (INFO, PipelineStart), (INFO, Banner),
                             (ERROR, NothingLoaded)]\<rparr>)"
proof -
  let ?e = "disk (YMapping no_keys) []"
  let ?w2 = "quiet\<lparr>logged := [(INFO, ConfigLoaded ''config.yaml'')]\<rparr>"
  let ?w3 = "quiet\<lparr>logged := [(INFO, ConfigLoaded ''config.yaml''), (INFO, Banner),
                             (INFO, PipelineStart), (INFO, Banner)]\<rparr>"
  have c: "chosen_config [''audio_pipeline.py''] quiet = (''config.yaml'', quiet)"
    by (simp add: chosen_config_def)
  have i: "init ?e ''config.yaml'' quiet = Ok (fresh (YMapping no_keys)) ?w2"
    by (simp add: init_def load_config_def disk_def fresh_def logger_def quiet_def)
  have l: "load_audio_files ?e (fresh (YMapping no_keys))
             (log_all [(INFO, Banner), (INFO, PipelineStart), (INFO, Banner)] ?w2)
           = Ok (fresh (YMapping no_keys)) ?w3"
    by (simp add: load_audio_files_def config_get_def fixture_defs log_all_def)
  have e: "mix_segments (fresh (YMapping no_keys)) = []"
    "concatenate_segments (fresh (YMapping no_keys)) = []"
    "audio_segments (fresh (YMapping no_keys)) = []"
    by (simp_all add: fresh_def)
  show ?thesis
    using nothing_loaded_returns_normally [OF c i l e, where lib = demo_lib]
    by (simp add: logger_def quiet_def)
qed

text \<open>
  C1, as the claim states it, fails: with a configuration that names no file, nothing is
  loaded, and \<^verbatim>\<open>main\<close> returns normally. The process status is 0, not an error.
\<close>

theorem nothing_loaded_status_counterexample:
  "(\<exists>p w. main demo_lib (disk (YMapping no_keys) []) [''audio_pipeline.py''] quiet = Ok p w
          \<and> mix_segments p = [] \<and> concatenate_segments p = [] \<and> audio_segments p = []
          \<and> (ERROR, NothingLoaded) \<in> set (logged w) \<and> written w = [])
   \<and> exit_status (main demo_lib (disk (YMapping no_keys) []) [''audio_pipeline.py''] quiet)
       = 0"
  by (simp add: main_def chosen_config_def init_def load_config_def run_def
        load_audio_files_def config_get_def combine_def fixture_defs log_all_def logger_def)

subsection \<open>Combining the mixed and the concatenated result\<close>

lemma mixed_result_Some: "mixed_result lib p = Some m \<Longrightarrow> mix_segments p \<noteq> []"
  by (auto simp: mixed_result_def)

lemma concatenated_result_Some:
  "concatenated_result lib p = Some c \<Longrightarrow> concatenate_segments p \<noteq> []"
  by (auto simp: concatenated_result_def)

lemma combine_new_path:
  assumes "mix_segments p \<noteq> [] \<or> concatenate_segments p \<noteq> []"
  shows "combine lib p w =
     then_do (lift (py_and (truthy (mixed_result lib p)) (truthy (concatenated_result lib p)))
                (log_all (combine_lines p) w)) (\<lambda>both w.
       if both then
         then_do (lift (config_get (config p) final_combine_method ''concatenate'') w)
           (\<lambda>final_combine w.
              case (mixed_result lib p, concatenated_result lib p) of
                (Some m, Some c) \<Rightarrow>
                  Ok (Some (p\<lparr>result :=
                        Some (if final_combine = ''overlay'' then seg_overlay lib m c
                              else seg_add lib m c)\<rparr>)) w
              | _ \<Rightarrow> Exc AttributeError w)
       else
         then_do (lift (truthy (mixed_result lib p)) w) (\<lambda>m w.
           if m then Ok (Some (p\<lparr>result := mixed_result lib p\<rparr>)) w
           else
             then_do (lift (truthy (concatenated_result lib p)) w) (\<lambda>c w.
               if c then Ok (Some (p\<lparr>result := concatenated_result lib p\<rparr>)) w
               else Ok (Some p) w)))"
proof -
  have w: "log_all (combine_lines p) w =
     (case concatenate_segments p of
        [] \<Rightarrow> (case mix_segments p of [] \<Rightarrow> w
               | f # r \<Rightarrow> logger INFO (MixingFiles (length (mix_segments p))) w)
      | f # r \<Rightarrow> logger INFO (ConcatenatingFiles (length (concatenate_segments p)))
          (case mix_segments p of [] \<Rightarrow> w
               | f # r \<Rightarrow> logger INFO (MixingFiles (length (mix_segments p))) w))"
    by (cases w) (simp add: combine_lines_def log_all_def logger_def split: list.splits)
  show ?thesis
    unfolding w using assms
    by (cases "mix_segments p"; cases "concatenate_segments p")
       (simp_all add: combine_def mixed_result_def concatenated_result_def cong: if_cong)
qed


lemma combine_mixed_only:
  assumes "truthy (mixed_result lib p) = Inr True"
    and "truthy (concatenated_result lib p) = Inr False"
  shows "combine lib p w =
           Ok (Some (p\<lparr>result := mixed_result lib p\<rparr>)) (log_all (combine_lines p) w)"
proof -
  obtain m where "mixed_result lib p = Some m"
    using truthy_True_Some [OF assms(1)] by blast
  then have "mix_segments p \<noteq> [] \<or> concatenate_segments p \<noteq> []"
    using mixed_result_Some by blast
  then show ?thesis
    using assms by (simp add: combine_new_path)
qed

lemma combine_concatenated_only:
  assumes "truthy (mixed_result lib p) = Inr False"
    and "truthy (concatenated_result lib p) = Inr True"
  shows "combine lib p w =
           Ok (Some (p\<lparr>result := concatenated_result lib p\<rparr>))
              (log_all (combine_lines p) w)"
proof -
  obtain c where "concatenated_result lib p = Some c"
    using truthy_True_Some [OF assms(2)] by blast
  then have "mix_segments p \<noteq> [] \<or> concatenate_segments p \<noteq> []"
    using concatenated_result_Some by blast
  then show ?thesis
    using assms by (simp add: combine_new_path)
qed

lemma combine_neither:
  assumes "mix_segments p \<noteq> [] \<or> concatenate_segments p \<noteq> []"
    and "truthy (mixed_result lib p) = Inr False"
    and "truthy (concatenated_result lib p) = Inr False"
  shows "combine lib p w = Ok (Some p) (log_all (combine_lines p) w)"
  using assms by (simp add: combine_new_path)

lemma combine_frame:
  assumes "combine lib p w = Ok r w'"
  shows "written w' = written w \<and> created w' = created w"
proof (cases "mix_segments p \<noteq> [] \<or> concatenate_segments p \<noteq> []")
  case True
  have "\<exists>ls. w' = log_all ls w"
    using assms unfolding combine_new_path [OF True]
    by (auto simp: then_do_lift_Ok split: if_splits option.splits prod.splits)
  then show ?thesis by (auto simp: log_all_def)
next
  case False
  then show ?thesis
    using assms
    by (auto simp: combine_def then_do_lift_Ok mix_audio_files_def concatenate_audio_files_def
          logger_def split: if_splits list.splits)
qed

lemma combine_zero_mixed:
  assumes "mixed_result lib q = Some m" and "concatenated_result lib q = Some c"
    and "seg_len m = Inr 0" and "seg_len c = Inr n"
  shows "combine lib q v =
           Ok (Some (if n = 0 then q else q\<lparr>result := Some c\<rparr>)) (log_all (combine_lines q) v)"
proof (cases "n = 0")
  case True
  have "mix_segments q \<noteq> [] \<or> concatenate_segments q \<noteq> []"
    using mixed_result_Some [OF assms(1)] by simp
  then show ?thesis
    using assms True combine_neither [of q lib v] by simp
next
  case False
  then show ?thesis
    using assms combine_concatenated_only [of lib q v] by simp
qed

lemma combine_zero_concatenated:
  assumes "mixed_result lib q = Some m" and "concatenated_result lib q = Some c"
    and "seg_len m = Inr n" and "seg_len c = Inr 0"
  shows "combine lib q v =
           Ok (Some (if n = 0 then q else q\<lparr>result := Some m\<rparr>)) (log_all (combine_lines q) v)"
proof (cases "n = 0")
  case True
  have "mix_segments q \<noteq> [] \<or> concatenate_segments q \<noteq> []"
    using mixed_result_Some [OF assms(1)] by simp
  then show ?thesis
    using assms True combine_neither [of q lib v] by simp
next
  case False
  then show ?thesis
    using assms combine_mixed_only [of lib q v] by simp
qed





subsection \<open>A result of zero duration\<close>

text \<open>
  C9. When the result the combination leaves in \<^verbatim>\<open>self.result\<close> has length 0 ms, the two
  truth tests of \<^verbatim>\<open>run\<close> treat it as absent: step 4 applies no effect and step 5 saves
  nothing, so no file is written and no directory created, and \<^verbatim>\<open>run\<close> returns normally
  after its three closing log lines. In the combination itself, when the mixed or the
  concatenated result has length 0 ms the branch that combines the two is not taken: the
  result is the other one if that is not of length 0 as well, and is left as it was if it is.
\<close>

theorem zero_duration_result_is_absent:
  assumes "load_audio_files e p
             (log_all [(INFO, Banner), (INFO, PipelineStart), (INFO, Banner)] w) = Ok p1 w1"
    and "combine lib p1 w1 = Ok (Some p2) w2"
    and "result p2 = Some a"
    and "seg_len a = Inr 0"
  shows "run lib e p w =
           Ok p2 (log_all [(INFO, Banner), (INFO, PipelineDone), (INFO, Banner)] w2)
         \<and> effects_step lib p2 w2 = Ok p2 w2
         \<and> save_step e p2 w2 = Ok p2 w2
         \<and> written w2 = written w \<and> created w2 = created w
         \<and> (mixed_result lib q = Some m \<and> concatenated_result lib q = Some c
              \<and> seg_len m = Inr 0 \<and> seg_len c = Inr n \<longrightarrow>
            combine lib q v =
              Ok (Some (if n = 0 then q else q\<lparr>result := Some c\<rparr>))
                 (log_all (combine_lines q) v))
         \<and> (mixed_result lib q = Some m \<and> concatenated_result lib q = Some c
              \<and> seg_len m = Inr n \<and> seg_len c = Inr 0 \<longrightarrow>
            combine lib q v =
              Ok (Some (if n = 0 then q else q\<lparr>result := Some m\<rparr>))
                 (log_all (combine_lines q) v))"
proof -
  have t: "truthy (result p2) = Inr False"
    using assms(3,4) by simp
  have e: "effects_step lib p2 w2 = Ok p2 w2"
    using t by (simp add: effects_step_def)
  have s: "save_step e p2 w2 = Ok p2 w2"
    using t by (simp add: save_step_def)
  have r: "run lib e p w =
           Ok p2 (log_all [(INFO, Banner), (INFO, PipelineDone), (INFO, Banner)] w2)"
    using assms(1,2) e s by (simp add: run_def)
  have f1: "written w1 = written w \<and> created w1 = created w"
    using load_audio_files_frame [OF assms(1)] by (simp add: log_all_def)
  have f2: "written w2 = written w1 \<and> created w2 = created w1"
    using combine_frame [OF assms(2)] .
  show ?thesis
    using r e s f1 f2 combine_zero_mixed [of lib q m c n v]
      combine_zero_concatenated [of lib q m c n v]
    by simp
qed

theorem zero_duration_result_is_absent_witness:
  "seg_len (tone [1, 2]) = Inr 0
   \<and> run demo_lib
       (disk (YMapping (no_keys\<lparr>audio_files := Some [''a.wav'']\<rparr>))
          [(''input_audio/a.wav'', tone [1, 2])])
       (fresh (YMapping (no_keys\<lparr>audio_files := Some [''a.wav'']\<rparr>))) quiet
     = Ok ((fresh (YMapping (no_keys\<lparr>audio_files := Some [''a.wav'']\<rparr>)))
             \<lparr>audio_segments := [tone [1, 2]], result := Some (tone [1, 2])\<rparr>)
          (quiet\<lparr>logged := [(INFO, Banner), (INFO, PipelineStart), (INFO, Banner),
                             (INFO, FileLoaded ''a.wav'' 0 5000),
                             (INFO, ConcatenatingAudio 1),
                             (INFO, Banner), (INFO, PipelineDone), (INFO, Banner)],
                  reads := [''input_audio/a.wav'']\<rparr>)
   \<and> combine demo_lib
       ((fresh (YMapping no_keys))\<lparr>mix_segments := [tone [1, 2]],
          concatenate_segments := [tone [3, 4, 5, 6, 7]]\<rparr>) quiet
     = Ok (Some ((fresh (YMapping no_keys))\<lparr>mix_segments := [tone [1, 2]],
              concatenate_segments := [tone [3, 4, 5, 6, 7]],
              result := Some (tone [3, 4, 5, 6, 7])\<rparr>))
          (quiet\<lparr>logged := [(INFO, MixingFiles 1), (INFO, ConcatenatingFiles 1)]\<rparr>)"
proof -
  let ?c = "YMapping (no_keys\<lparr>audio_files := Some [''a.wav'']\<rparr>)"
  let ?e = "disk ?c [(''input_audio/a.wav'', tone [1, 2])]"
  let ?p1 = "(fresh ?c)\<lparr>audio_segments := [tone [1, 2]]\<rparr>"
  let ?w1 = "quiet\<lparr>logged := [(INFO, Banner), (INFO, PipelineStart), (INFO, Banner),
                             (INFO, FileLoaded ''a.wav'' 0 5000)],
                  reads := [''input_audio/a.wav'']\<rparr>"
  let ?p2 = "?p1\<lparr>result := Some (tone [1, 2])\<rparr>"
  let ?w2 = "?w1\<lparr>logged := logged ?w1 @ [(INFO, ConcatenatingAudio 1)]\<rparr>"
  let ?q = "(fresh (YMapping no_keys))\<lparr>mix_segments := [tone [1, 2]],
          concatenate_segments := [tone [3, 4, 5, 6, 7]]\<rparr>"
  have z: "seg_len (tone [1, 2]) = Inr 0"
    by (simp add: len_defs tone_def)
  have o: "seg_len (tone [3, 4, 5, 6, 7]) = Inr 1"
    by (simp add: len_defs tone_def)
  have l: "load_audio_files ?e (fresh ?c)
             (log_all [(INFO, Banner), (INFO, PipelineStart), (INFO, Banner)] quiet) = Ok ?p1 ?w1"
    using z
    by (simp add: load_audio_files_def config_get_def fresh_def disk_def no_keys_def quiet_def
          log_all_def logger_def path_join_def tone_def)
  have c: "combine demo_lib ?p1 ?w1 = Ok (Some ?p2) ?w2"
    by (simp add: combine_def config_get_def fresh_def no_keys_def concatenate_audio_files_def
          logger_def)
  have r: "result ?p2 = Some (tone [1, 2])"
    by simp
  have mq: "mixed_result demo_lib ?q = Some (tone [1, 2])
            \<and> concatenated_result demo_lib ?q = Some (tone [3, 4, 5, 6, 7])
            \<and> seg_len (tone [1, 2]) = Inr 0 \<and> seg_len (tone [3, 4, 5, 6, 7]) = Inr 1"
    using z o by (simp add: mixed_result_def concatenated_result_def fresh_def)
  note t = zero_duration_result_is_absent [OF l c r z, where q = ?q and v = quiet
      and m = "tone [1, 2]" and c = "tone [3, 4, 5, 6, 7]" and n = 1]
  have g1: "run demo_lib ?e (fresh ?c) quiet =
           Ok ?p2 (log_all [(INFO, Banner), (INFO, PipelineDone), (INFO, Banner)] ?w2)"
    using t by (rule conjunct1)
  have g2: "combine demo_lib ?q quiet =
              Ok (Some (if (1::nat) = 0 then ?q else ?q\<lparr>result := Some (tone [3, 4, 5, 6, 7])\<rparr>))
                 (log_all (combine_lines ?q) quiet)"
    using t mq by blast
  show ?thesis
    using z g1 g2
    by (simp add: log_all_def combine_lines_def fresh_def quiet_def)
qed

subsection \<open>Concatenation and duration\<close>




















end
